theory Spec2Isabelle
  imports Main "HOL-Library.Word" "HOL-Library.Sublist"
begin

section \<open>The alarm package: cooldown decision (auto_scale.go)\<close>

subsection \<open>Errors, time and durations\<close>

text \<open>
  Go errors are values. \<open>ErrNotFound\<close> is \<open>mgo.ErrNotFound\<close>, \<open>NotConfigured\<close> is
  \<open>errors.New("AutoScale is not configured.")\<close>, \<open>WizardNotFound n\<close> is
  \<open>fmt.Errorf("wizard %q not found", n)\<close>; every other error of a collaborator is
  \<open>ExtErr\<close> with its message. A Go \<open>error\<close> result is an \<open>error option\<close>, \<open>None\<close> for nil.
\<close>

datatype error = ErrNotFound | NotConfigured | WizardNotFound string | ExtErr string

text \<open>
  \<open>time.Time\<close> (wall clock, as left by \<open>UTC()\<close>, which strips the monotonic reading) is
  the number of nanoseconds since the zero instant, January 1 of year 1, 00:00:00 UTC.
  \<open>time.Duration\<close> is an \<open>int64\<close> of nanoseconds, compared as a signed number.
\<close>

type_synonym Time = int
type_synonym Duration = "64 word"

definition IsZero :: "Time \<Rightarrow> bool" where
  "IsZero t = (t = 0)"

definition maxDuration :: Duration where
  "maxDuration = word_of_int (2 ^ 63 - 1)"

definition minDuration :: Duration where
  "minDuration = word_of_int (- (2 ^ 63))"

text \<open>
  \<open>t.Sub(u)\<close>: the difference as a Duration; where it does not fit, the maximum
  (or minimum) Duration is returned.
\<close>

definition Sub :: "Time \<Rightarrow> Time \<Rightarrow> Duration" where
  "Sub t u =
     (let d = t - u
      in if 2 ^ 63 - 1 < d then maxDuration
         else if d < - (2 ^ 63) then minDuration
         else word_of_int d)"

text \<open>\<open>time.Second\<close>, a Duration of \<open>1000000000\<close> nanoseconds.\<close>

definition Second :: Duration where
  "Second = 1000000000"

subsection \<open>Config and Event\<close>

text \<open>
  \<open>Config\<close> as declared in auto_scale.go. The type \<open>action.Action\<close> of its two action
  fields belongs to the action package and stays a type parameter; \<open>uint\<close> counts are
  \<open>nat\<close> (no arithmetic is done on them).
\<close>

record 'a Config =
  cfg_Name :: string
  cfg_Increase :: 'a
  cfg_Decrease :: 'a
  cfg_MinUnits :: nat
  cfg_MaxUnits :: nat
  cfg_Enabled :: bool

text \<open>
  Modelled from the spec: the declaration of \<open>Event\<close> is not in auto_scale.go; the
  fields are those of the data model (ID, owning alarm name, Type, StartTime, EndTime,
  Successful, Error). Only \<open>EndTime\<close> is read by the code below.
\<close>

record Event =
  ev_ID :: nat
  ev_AlarmName :: string
  ev_Type :: string
  ev_StartTime :: Time
  ev_EndTime :: Time
  ev_Successful :: bool
  ev_Error :: string

subsection \<open>shouldWait\<close>

text \<open>
  \<open>shouldWait(config, waitPeriod)\<close>. Its two reads of the outside world are parameters:
  \<open>now\<close> is the value of \<open>time.Now().UTC()\<close>, and \<open>lastScaleEvent\<close> (a function of the
  event store, not of auto_scale.go) maps the config to the pair \<open>(lastEvent, err)\<close> it
  returns.
\<close>

definition shouldWait ::
  "('a Config \<Rightarrow> Event \<times> error option) \<Rightarrow> Time \<Rightarrow> 'a Config \<Rightarrow> Duration \<Rightarrow> bool \<times> error option" where
  "shouldWait lastScaleEvent now config waitPeriod =
     (case lastScaleEvent config of (lastEvent, err) \<Rightarrow>
        if err \<noteq> None \<and> err \<noteq> Some ErrNotFound then (False, err)
        else if err \<noteq> Some ErrNotFound \<and> IsZero (ev_EndTime lastEvent) then (True, None)
        else let diff = Sub now (ev_EndTime lastEvent)
             in if sint waitPeriod < sint diff then (False, None) else (True, None))"

subsection \<open>scaleIfNeeded and the enable switches\<close>

text \<open>
  \<open>scaleIfNeeded(config)\<close>: a nil config is an error; for any other config the body in
  force is the single \<open>return nil\<close> (the scaling logic is inside a comment). The event
  collection is threaded through so that what the function leaves there can be stated.
\<close>

definition scaleIfNeeded :: "'a Config option \<Rightarrow> Event list \<Rightarrow> error option \<times> Event list" where
  "scaleIfNeeded config events =
     (case config of
        None \<Rightarrow> (Some NotConfigured, events)
      | Some c \<Rightarrow> (None, events))"

text \<open>\<open>runAutoScaleOnce\<close>: the loop over \<open>configs := []Config{}\<close>, an empty slice.\<close>

fun runConfigs :: "'a Config list \<Rightarrow> Event list \<Rightarrow> error list \<times> Event list" where
  "runConfigs [] events = ([], events)"
| "runConfigs (config # configs) events =
     (case scaleIfNeeded (Some config) events of
        (None, events') \<Rightarrow> runConfigs configs events'
      | (Some err, events') \<Rightarrow>
          (case runConfigs configs events' of (logged, events'') \<Rightarrow> (err # logged, events'')))"

definition runAutoScaleOnce :: "Event list \<Rightarrow> error list \<times> Event list" where
  "runAutoScaleOnce events = runConfigs ([] :: unit Config list) events"

definition AutoScaleEnable :: "'a Config \<Rightarrow> error option \<times> 'a Config" where
  "AutoScaleEnable config = (None, config\<lparr>cfg_Enabled := True\<rparr>)"

definition AutoScaleDisable :: "'a Config \<Rightarrow> error option \<times> 'a Config" where
  "AutoScaleDisable config = (None, config\<lparr>cfg_Enabled := False\<rparr>)"

section \<open>The wizard package: composing the two alarms of an autoscale specification\<close>

subsection \<open>Data\<close>

record ScaleAction =
  sa_Aggregator :: string
  sa_Metric :: string
  sa_Operator :: string
  sa_Value :: string
  sa_Step :: string
  sa_Wait :: Duration

text \<open>\<open>MinUnits\<close> is a Go \<open>int\<close>; it is only compared and printed, never computed with.\<close>

record AutoScale =
  as_Name :: string
  as_ScaleUp :: ScaleAction
  as_ScaleDown :: ScaleAction
  as_MinUnits :: int
  as_Process :: string

text \<open>
  \<open>alarm.Alarm\<close> and \<open>datasource.DataSource\<close> are declared in their own packages; the
  records carry the fields that the wizard reads and writes.
\<close>

record Alarm =
  al_Name :: string
  al_Expression :: string
  al_Enabled :: bool
  al_Wait :: Duration
  al_Actions :: "string list"
  al_Instance :: string
  al_DataSources :: "string list"
  al_Envs :: "string \<rightharpoonup> string"

record DataSource =
  ds_ExpressionTemplate :: string

text \<open>The zero value of \<open>ScaleAction\<close>, which \<open>var action ScaleAction\<close> declares.\<close>

definition zeroScaleAction :: ScaleAction where
  "zeroScaleAction =
     \<lparr>sa_Aggregator = [], sa_Metric = [], sa_Operator = [], sa_Value = [], sa_Step = [],
      sa_Wait = 0\<rparr>"

definition unitsExpression :: string where
  "unitsExpression = ''!units.lock.Locked && units.units.map(function(unit){ if (unit.ProcessName === \"{process}\") {return 1} else {return 0}}).reduce(function(c, p) { return c + p }) > {minUnits}''"

definition defaultExpression :: string where
  "defaultExpression = ''{metric}.aggregations.range.buckets[0].date.buckets[{metric}.aggregations.range.buckets[0].date.buckets.length - 1].{aggregator}.value {operator} {value}''"

subsection \<open>Library functions of Go used by the wizard\<close>

text \<open>\<open>strings.Join(parts, sep)\<close>.\<close>

fun Join :: "string list \<Rightarrow> string \<Rightarrow> string" where
  "Join [] sep = []"
| "Join [x] sep = x"
| "Join (x # y # ys) sep = x @ sep @ Join (y # ys) sep"

text \<open>
  \<open>strings.NewReplacer(old1, new1, ...).Replace(s)\<close>: the target is scanned from left to
  right; at each position the old strings are compared in argument order, the first
  that matches there is replaced by its new string and the scan resumes after it,
  without looking at the text just written; where none matches, the character is
  copied. The wizard passes five non-empty old strings; an empty old string (which Go
  would match at every position) is skipped by \<open>lookup\<close>.
\<close>

fun lookup :: "(string \<times> string) list \<Rightarrow> string \<Rightarrow> (string \<times> string) option" where
  "lookup [] s = None"
| "lookup ((old, new) # ps) s =
     (if old \<noteq> [] \<and> prefix old s then Some (old, new) else lookup ps s)"

function Replace :: "(string \<times> string) list \<Rightarrow> string \<Rightarrow> string" where
  "Replace ps [] = []"
| "Replace ps (c # cs) =
     (case lookup ps (c # cs) of
        Some (old, new) \<Rightarrow> new @ Replace ps (drop (length old) (c # cs))
      | None \<Rightarrow> c # Replace ps cs)"
  by pat_completeness auto
termination
proof (relation "measure (\<lambda>(ps, s). length s)")
  show "wf (measure (\<lambda>(ps, s). length s))" by simp
next
  fix ps :: "(string \<times> string) list" and c :: char and cs :: string and x2 old new
  assume "lookup ps (c # cs) = Some x2" and "(old, new) = x2"
  then have "lookup ps (c # cs) = Some (old, new)" by simp
  then have "old \<noteq> []" by (induction ps) (auto split: if_splits)
  then show "((ps, drop (length old) (c # cs)), (ps, c # cs)) \<in> measure (\<lambda>(ps, s). length s)"
    by (cases old) simp_all
next
  fix ps :: "(string \<times> string) list" and c :: char and cs :: string
  show "((ps, cs), (ps, c # cs)) \<in> measure (\<lambda>(ps, s). length s)" by simp
qed

text \<open>\<open>strconv.Itoa\<close>: the decimal digits, with a minus sign for a negative number.\<close>

definition digit :: "nat \<Rightarrow> char" where
  "digit d = ''0123456789'' ! d"

function digits :: "nat \<Rightarrow> string" where
  "digits n = (if n < 10 then [digit n] else digits (n div 10) @ [digit (n mod 10)])"
  by pat_completeness auto
termination
  by (relation "measure (\<lambda>n. n)") auto

definition Itoa :: "int \<Rightarrow> string" where
  "Itoa i = (if i < 0 then CHR ''-'' # digits (nat (- i)) else digits (nat i))"

subsection \<open>newScaleAction: the alarm it builds\<close>

text \<open>
  The body of the loop over the datasources: \<open>datasource.Get(d)\<close> (its error is
  dropped by the source; \<open>None\<close> is the nil result) and the choice of the template.
\<close>

definition expressionTemplate :: "(string \<Rightarrow> DataSource option) \<Rightarrow> string \<Rightarrow> string" where
  "expressionTemplate Get d =
     (case Get d of
        None \<Rightarrow> (if d = ''units'' then unitsExpression else defaultExpression)
      | Some ds \<Rightarrow>
          if ds_ExpressionTemplate ds = []
          then (if d = ''units'' then unitsExpression else defaultExpression)
          else ds_ExpressionTemplate ds)"

fun expPartsLoop :: "(string \<Rightarrow> DataSource option) \<Rightarrow> string list \<Rightarrow> string list \<Rightarrow> string list" where
  "expPartsLoop Get [] expParts = expParts"
| "expPartsLoop Get (d # ds) expParts = expPartsLoop Get ds (expParts @ [expressionTemplate Get d])"

text \<open>
  The arguments of \<open>strings.NewReplacer\<close> in \<open>newScaleAction\<close>, as pairs of an old
  and a new string, in the order of the source.
\<close>

definition NewReplacer :: "string \<Rightarrow> ScaleAction \<Rightarrow> int \<Rightarrow> (string \<times> string) list" where
  "NewReplacer aggregator action minUnits =
     [(''{aggregator}'', aggregator),
      (''{operator}'', sa_Operator action),
      (''{value}'', sa_Value action),
      (''{minUnits}'', Itoa minUnits),
      (''{metric}'', sa_Metric action)]"

text \<open>
  Everything \<open>newScaleAction\<close> does before its call of \<open>alarm.NewAlarm\<close>: the alarm
  handed to that call. \<open>Get\<close> is the datasource registry.
\<close>

definition scaleAlarm :: "(string \<Rightarrow> DataSource option) \<Rightarrow> AutoScale \<Rightarrow> string \<Rightarrow> Alarm" where
  "scaleAlarm Get scaleConfig kind =
     (let action0 = (if kind = ''scale_up'' then as_ScaleUp scaleConfig else zeroScaleAction);
          datasources0 = (if kind = ''scale_up'' then [sa_Metric action0] else []);
          action = (if kind = ''scale_down'' then as_ScaleDown scaleConfig else action0);
          datasources = (if kind = ''scale_down'' then [''units'', sa_Metric action] else datasources0);
          name = (if as_Process scaleConfig = []
                  then kind @ ''_'' @ as_Name scaleConfig
                  else kind @ ''_'' @ as_Name scaleConfig @ ''_'' @ as_Process scaleConfig);
          processName = (if as_Process scaleConfig = [] then ''web'' else as_Process scaleConfig);
          aggregator = (if sa_Aggregator action = [] then ''max'' else sa_Aggregator action);
          expParts = expPartsLoop Get datasources [];
          expression = Join expParts '' && '';
          replacer = NewReplacer aggregator action (as_MinUnits scaleConfig);
          envs = [''step'' \<mapsto> sa_Step action, ''process'' \<mapsto> processName,
                  ''aggregator'' \<mapsto> aggregator]
      in \<lparr>al_Name = name,
          al_Expression = Replace replacer expression,
          al_Enabled = True,
          al_Wait = sa_Wait action * Second,
          al_Actions = [kind],
          al_Instance = as_Name scaleConfig,
          al_DataSources = datasources,
          al_Envs = envs\<rparr>)"

subsection \<open>The collaborators of the wizard\<close>

text \<open>
  The wizard reaches the alarm package and the database through calls into other
  packages: \<open>alarm.NewAlarm\<close>, \<open>alarm.FindAlarmByName\<close>,
  \<open>alarm.RemoveAlarm\<close>, \<open>db.Conn\<close> and the \<open>Insert\<close>, \<open>Update\<close> and \<open>Find\<close> of the wizard
  collection. Each such call is recorded, in order, in a list of calls; what a call
  returns is given by a \<open>world\<close>, which may answer differently depending on the calls
  made before it. Logging and \<open>conn.Close\<close> are left out.
\<close>

datatype call =
    CallNewAlarm Alarm
  | CallFindAlarmByName string
  | CallRemoveAlarm Alarm
  | CallConn
  | CallWizardInsert AutoScale
  | CallWizardUpdate string AutoScale
  | CallWizardFind string

record world =
  w_datasourceGet :: "string \<Rightarrow> DataSource option"
  w_NewAlarm :: "call list \<Rightarrow> Alarm \<Rightarrow> error option"
  w_FindAlarmByName :: "call list \<Rightarrow> string \<Rightarrow> error + Alarm"
  w_RemoveAlarm :: "call list \<Rightarrow> Alarm \<Rightarrow> error option"
  w_Conn :: "call list \<Rightarrow> error option"
  w_WizardInsert :: "call list \<Rightarrow> AutoScale \<Rightarrow> error option"
  w_WizardUpdate :: "call list \<Rightarrow> string \<Rightarrow> AutoScale \<Rightarrow> error option"
  w_WizardFind :: "call list \<Rightarrow> string \<Rightarrow> error + AutoScale list"

text \<open>The alarms on which \<open>alarm.NewAlarm\<close> and \<open>alarm.RemoveAlarm\<close> were called, and
  the specifications handed to the wizard collection.\<close>

fun createdAlarms :: "call list \<Rightarrow> Alarm list" where
  "createdAlarms [] = []"
| "createdAlarms (CallNewAlarm a # cs) = a # createdAlarms cs"
| "createdAlarms (c # cs) = createdAlarms cs"

fun removedAlarms :: "call list \<Rightarrow> Alarm list" where
  "removedAlarms [] = []"
| "removedAlarms (CallRemoveAlarm a # cs) = a # removedAlarms cs"
| "removedAlarms (c # cs) = removedAlarms cs"

fun persisted :: "call list \<Rightarrow> AutoScale list" where
  "persisted [] = []"
| "persisted (CallWizardInsert a # cs) = a # persisted cs"
| "persisted (CallWizardUpdate n a # cs) = a # persisted cs"
| "persisted (c # cs) = persisted cs"

subsection \<open>newScaleAction, New\<close>

definition newScaleAction :: "world \<Rightarrow> AutoScale \<Rightarrow> string \<Rightarrow> call list \<Rightarrow> error option \<times> call list" where
  "newScaleAction w scaleConfig kind tr =
     (let a = scaleAlarm (w_datasourceGet w) scaleConfig kind
      in (w_NewAlarm w tr a, tr @ [CallNewAlarm a]))"

text \<open>The assignment \<open>a.MinUnits = 1\<close> that opens \<open>New\<close> and \<open>Update\<close>.\<close>

definition clampMinUnits :: "AutoScale \<Rightarrow> AutoScale" where
  "clampMinUnits a = (if as_MinUnits a \<le> 0 then a\<lparr>as_MinUnits := 1\<rparr> else a)"

text \<open>
  \<open>New(a)\<close> works on a pointer: the result carries the specification as \<open>New\<close> leaves
  it, next to the error and the calls made.
\<close>

definition New :: "world \<Rightarrow> AutoScale \<Rightarrow> call list \<Rightarrow> error option \<times> AutoScale \<times> call list" where
  "New w a0 tr =
     (let a = clampMinUnits a0
      in case newScaleAction w a ''scale_up'' tr of
           (Some err, tr1) \<Rightarrow> (Some err, a, tr1)
         | (None, tr1) \<Rightarrow>
             (case newScaleAction w a ''scale_down'' tr1 of
                (Some err, tr2) \<Rightarrow> (Some err, a, tr2)
              | (None, tr2) \<Rightarrow>
                  (case w_Conn w tr2 of
                     Some err \<Rightarrow> (None, a, tr2 @ [CallConn])
                   | None \<Rightarrow>
                       (w_WizardInsert w (tr2 @ [CallConn]) a, a,
                        tr2 @ [CallConn, CallWizardInsert a]))))"

subsection \<open>FindBy, FindByName, alarms, removeAlarms, Enabled, Update\<close>



definition alarms :: "AutoScale \<Rightarrow> string list" where
  "alarms a =
     (if as_Process a = []
      then [''scale_up_'' @ as_Name a, ''scale_down_'' @ as_Name a]
      else [''scale_up_'' @ as_Name a @ ''_'' @ as_Process a,
            ''scale_down_'' @ as_Name a @ ''_'' @ as_Process a])"



fun EnabledLoop :: "world \<Rightarrow> string list \<Rightarrow> call list \<Rightarrow> bool \<times> call list" where
  "EnabledLoop w [] tr = (True, tr)"
| "EnabledLoop w (alarmName # as) tr =
     (case w_FindAlarmByName w tr alarmName of
        Inl err \<Rightarrow> (False, tr @ [CallFindAlarmByName alarmName])
      | Inr al \<Rightarrow>
          if \<not> al_Enabled al then (False, tr @ [CallFindAlarmByName alarmName])
          else EnabledLoop w as (tr @ [CallFindAlarmByName alarmName]))"

definition Enabled :: "world \<Rightarrow> AutoScale \<Rightarrow> call list \<Rightarrow> bool \<times> call list" where
  "Enabled w a tr = EnabledLoop w (alarms a) tr"


subsection \<open>Shorthands of the statements\<close>

text \<open>The aggregator and the process name that \<open>newScaleAction\<close> settles on, and the
  two alarm names of a specification.\<close>

abbreviation aggregatorOf :: "ScaleAction \<Rightarrow> string" where
  "aggregatorOf action \<equiv> (if sa_Aggregator action = [] then ''max'' else sa_Aggregator action)"

abbreviation processNameOf :: "AutoScale \<Rightarrow> string" where
  "processNameOf c \<equiv> (if as_Process c = [] then ''web'' else as_Process c)"

abbreviation scaleUpName :: "AutoScale \<Rightarrow> string" where
  "scaleUpName c \<equiv> (if as_Process c = [] then ''scale_up_'' @ as_Name c
                     else ''scale_up_'' @ as_Name c @ ''_'' @ as_Process c)"

abbreviation scaleDownName :: "AutoScale \<Rightarrow> string" where
  "scaleDownName c \<equiv> (if as_Process c = [] then ''scale_down_'' @ as_Name c
                       else ''scale_down_'' @ as_Name c @ ''_'' @ as_Process c)"

section \<open>Inputs used in the examples\<close>

text \<open>Midnight (UTC) of January 1, 2015, in nanoseconds since the zero instant.\<close>

definition now2015 :: Time where
  "now2015 = 63555667200000000000"

definition rush :: "unit Config" where
  "rush = \<lparr>cfg_Name = ''rush'', cfg_Increase = (), cfg_Decrease = (),
            cfg_MinUnits = 1, cfg_MaxUnits = 10, cfg_Enabled = True\<rparr>"

text \<open>The zero value of \<open>Event\<close>, an event in flight and one closed a minute before
  \<open>now2015\<close>.\<close>

definition zeroEvent :: Event where
  "zeroEvent = \<lparr>ev_ID = 0, ev_AlarmName = [], ev_Type = [], ev_StartTime = 0,
                 ev_EndTime = 0, ev_Successful = False, ev_Error = []\<rparr>"

definition openEvent :: Event where
  "openEvent = \<lparr>ev_ID = 1, ev_AlarmName = ''rush'', ev_Type = ''decrease'',
                 ev_StartTime = 63555667100000000000, ev_EndTime = 0,
                 ev_Successful = False, ev_Error = []\<rparr>"

definition closedEvent :: Event where
  "closedEvent = \<lparr>ev_ID = 2, ev_AlarmName = ''rush'', ev_Type = ''increase'',
                   ev_StartTime = 63555667100000000000, ev_EndTime = 63555667140000000000,
                   ev_Successful = True, ev_Error = []\<rparr>"

definition lastOpen :: "unit Config \<Rightarrow> Event \<times> error option" where
  "lastOpen config = (openEvent, None)"

definition lastClosed :: "unit Config \<Rightarrow> Event \<times> error option" where
  "lastClosed config = (closedEvent, None)"

definition lastNotFound :: "unit Config \<Rightarrow> Event \<times> error option" where
  "lastNotFound config = (zeroEvent, Some ErrNotFound)"

text \<open>An event closed one nanosecond after the zero instant.\<close>

definition earlyEvent :: Event where
  "earlyEvent = \<lparr>ev_ID = 3, ev_AlarmName = ''rush'', ev_Type = ''increase'',
                  ev_StartTime = 0, ev_EndTime = 1, ev_Successful = True, ev_Error = []\<rparr>"

definition lastEarly :: "unit Config \<Rightarrow> Event \<times> error option" where
  "lastEarly config = (earlyEvent, None)"

text \<open>The specification of the round trip: name \<open>api\<close>, no process, scale up when the
  average of \<open>cpu\<close> is above 80.\<close>

definition api :: AutoScale where
  "api = \<lparr>as_Name = ''api'',
           as_ScaleUp = \<lparr>sa_Aggregator = ''avg'', sa_Metric = ''cpu'', sa_Operator = ''>'',
                         sa_Value = ''80'', sa_Step = ''1'', sa_Wait = 30\<rparr>,
           as_ScaleDown = \<lparr>sa_Aggregator = [], sa_Metric = ''cpu'', sa_Operator = ''<'',
                           sa_Value = ''20'', sa_Step = ''1'', sa_Wait = 60\<rparr>,
           as_MinUnits = 0,
           as_Process = []\<rparr>"

text \<open>A registry with no datasource, and worlds in which every call succeeds, or
  every call but the creation of the scale-down alarm.\<close>

definition noDatasource :: "string \<Rightarrow> DataSource option" where
  "noDatasource d = None"

definition findApiAlarm :: "call list \<Rightarrow> string \<Rightarrow> error + Alarm" where
  "findApiAlarm tr name =
     (if name = ''scale_up_api'' then Inr (scaleAlarm noDatasource (clampMinUnits api) ''scale_up'')
      else if name = ''scale_down_api'' then Inr (scaleAlarm noDatasource (clampMinUnits api) ''scale_down'')
      else Inl ErrNotFound)"

definition findApiWizard :: "call list \<Rightarrow> string \<Rightarrow> error + AutoScale list" where
  "findApiWizard tr q = (if q = ''api'' then Inr [clampMinUnits api] else Inr [])"

definition okWorld :: world where
  "okWorld = \<lparr>w_datasourceGet = noDatasource,
               w_NewAlarm = (\<lambda>tr al. None),
               w_FindAlarmByName = findApiAlarm,
               w_RemoveAlarm = (\<lambda>tr al. None),
               w_Conn = (\<lambda>tr. None),
               w_WizardInsert = (\<lambda>tr a. None),
               w_WizardUpdate = (\<lambda>tr n a. None),
               w_WizardFind = findApiWizard\<rparr>"

definition rejectScaleDown :: "call list \<Rightarrow> Alarm \<Rightarrow> error option" where
  "rejectScaleDown tr al =
     (if al_Name al = ''scale_down_api'' then Some (ExtErr ''scale_down rejected'') else None)"

definition downFailsWorld :: world where
  "downFailsWorld = okWorld\<lparr>w_NewAlarm := rejectScaleDown\<rparr>"

section \<open>Properties of the cooldown decision\<close>

lemma sint_maxDuration: "sint maxDuration = 2 ^ 63 - 1"
  by (simp add: maxDuration_def)

lemma sint_Sub_exact:
  assumes lo: "- (2 ^ 63) \<le> t - u" and hi: "t - u \<le> 2 ^ 63 - 1"
  shows "sint (Sub t u) = t - u"
proof -
  have "sint (word_of_int (t - u) :: 64 word) = signed_take_bit 63 (t - u)"
    by (simp only: sint_sbintrunc') simp
  also have "\<dots> = t - u"
    using lo hi by (intro signed_take_bit_int_eq_self) simp_all
  finally have "sint (word_of_int (t - u) :: 64 word) = t - u" .
  moreover have "Sub t u = word_of_int (t - u)"
    using lo hi by (simp add: Sub_def Let_def del: of_int_diff)
  ultimately show ?thesis by simp
qed

lemma Sub_saturates: "2 ^ 63 - 1 \<le> t - u \<Longrightarrow> Sub t u = maxDuration"
  by (simp add: Sub_def Let_def maxDuration_def del: of_int_diff)

lemma sint_below_maxDuration:
  assumes "w \<noteq> maxDuration"
  shows "sint (w :: Duration) < 2 ^ 63 - 1"
proof -
  have "sint w < 2 ^ 63" using sint_lt [of w] by simp
  moreover have "sint w \<noteq> 2 ^ 63 - 1"
  proof
    assume "sint w = 2 ^ 63 - 1"
    then have "sint w = sint maxDuration" by (simp add: sint_maxDuration)
    then have "w = maxDuration" by (rule signed_word_eqI)
    with assms show False by simp
  qed
  ultimately show ?thesis by simp
qed

lemma sint_minDuration: "sint minDuration = - (2 ^ 63)"
  by (simp add: minDuration_def)

lemma Sub_saturates_min: "t - u < - (2 ^ 63) \<Longrightarrow> Sub t u = minDuration"
  by (simp add: Sub_def Let_def del: of_int_diff)

lemma elapsed_exceeds_iff:
  assumes "w \<noteq> maxDuration \<or> t - u \<le> 2 ^ 63 - 1"
  shows "sint (w :: Duration) < sint (Sub t u) \<longleftrightarrow> sint w < t - u"
proof -
  have lo: "- (2 ^ 63) \<le> sint w" using sint_ge [of w] by simp
  have hi: "sint w < 2 ^ 63" using sint_lt [of w] by simp
  consider "2 ^ 63 - 1 < t - u" | "t - u < - (2 ^ 63)"
    | "- (2 ^ 63) \<le> t - u" "t - u \<le> 2 ^ 63 - 1"
    by linarith
  then show ?thesis
  proof cases
    case 1
    then have "w \<noteq> maxDuration" using assms by simp
    then have "sint w < 2 ^ 63 - 1" by (rule sint_below_maxDuration)
    moreover have "Sub t u = maxDuration" using 1 by (intro Sub_saturates) simp
    ultimately show ?thesis using 1 by (simp add: sint_maxDuration)
  next
    case 2
    then have "Sub t u = minDuration" by (rule Sub_saturates_min)
    then show ?thesis using 2 lo by (simp add: sint_minDuration)
  next
    case 3
    then show ?thesis by (simp add: sint_Sub_exact)
  qed
qed

lemma never_exceeds_maxDuration: "\<not> sint maxDuration < sint (d :: Duration)"
  using sint_lt [of d] by (simp add: sint_maxDuration)

text \<open>
  C1. Whenever the lookup of the most recent event succeeds and that event has a zero
  \<open>EndTime\<close> (it is still in flight), \<open>shouldWait\<close> returns true and no error, whatever
  the current time and the wait period are.
\<close>

theorem shouldWait_in_flight:
  "lastScaleEvent config = (ev, None) \<Longrightarrow> IsZero (ev_EndTime ev) \<Longrightarrow>
   shouldWait lastScaleEvent now config waitPeriod = (True, None)"
  by (simp add: shouldWait_def)

theorem shouldWait_in_flight_witness:
  "lastOpen rush = (openEvent, None) \<and> IsZero (ev_EndTime openEvent)
   \<and> shouldWait lastOpen now2015 rush 30000000000 = (True, None)"
  using shouldWait_in_flight [of lastOpen rush openEvent now2015 30000000000]
  by (simp add: lastOpen_def openEvent_def IsZero_def)

text \<open>
  C2, as stated: for a closed event \<open>shouldWait\<close> returns false if and only if now
  minus \<open>EndTime\<close> is strictly greater than the wait period. For an event closed one
  nanosecond after the zero instant, the clock of 2015 and the wait period
  \<open>maxDuration\<close>, the elapsed time is greater than the wait period and \<open>shouldWait\<close>
  returns true: \<open>now.Sub(EndTime)\<close> saturates at \<open>maxDuration\<close>, which is not greater
  than the wait period.
\<close>

theorem shouldWait_closed_counterexample:
  "lastEarly rush = (earlyEvent, None) \<and> \<not> IsZero (ev_EndTime earlyEvent)
   \<and> sint maxDuration < now2015 - ev_EndTime earlyEvent
   \<and> shouldWait lastEarly now2015 rush maxDuration = (True, None)
   \<and> shouldWait lastEarly now2015 rush maxDuration \<noteq> (False, None)"
  by (simp add: shouldWait_def lastEarly_def earlyEvent_def IsZero_def now2015_def Sub_def
      Let_def maxDuration_def)

text \<open>
  C2, amended. Whenever the most recent event is closed (its \<open>EndTime\<close> is not zero),
  \<open>shouldWait\<close> returns no error. It returns false exactly when now minus \<open>EndTime\<close>
  is strictly greater than the wait period, provided the wait period is not
  \<open>maxDuration\<close> or the difference is at most \<open>2 ^ 63 - 1\<close> nanoseconds; when the
  elapsed time equals the wait period it returns true; for the wait period
  \<open>maxDuration\<close> it returns true whatever the elapsed time. In every case it returns
  false exactly when the Duration \<open>now.Sub(EndTime)\<close> is greater than the wait period.
\<close>

theorem shouldWait_closed:
  assumes "lastScaleEvent config = (ev, None)" and "\<not> IsZero (ev_EndTime ev)"
  shows "snd (shouldWait lastScaleEvent now config waitPeriod) = None
       \<and> (waitPeriod \<noteq> maxDuration \<or> now - ev_EndTime ev \<le> 2 ^ 63 - 1
            \<longrightarrow> (fst (shouldWait lastScaleEvent now config waitPeriod) = False
                   \<longleftrightarrow> sint waitPeriod < now - ev_EndTime ev))
       \<and> (now - ev_EndTime ev = sint waitPeriod
            \<longrightarrow> fst (shouldWait lastScaleEvent now config waitPeriod) = True)
       \<and> (waitPeriod = maxDuration
            \<longrightarrow> fst (shouldWait lastScaleEvent now config waitPeriod) = True)
       \<and> (fst (shouldWait lastScaleEvent now config waitPeriod) = False
            \<longleftrightarrow> sint waitPeriod < sint (Sub now (ev_EndTime ev)))"
proof -
  have eq: "shouldWait lastScaleEvent now config waitPeriod
              = (\<not> sint waitPeriod < sint (Sub now (ev_EndTime ev)), None)"
    using assms by (simp add: shouldWait_def Let_def)
  have c2: "fst (shouldWait lastScaleEvent now config waitPeriod) = False
              \<longleftrightarrow> sint waitPeriod < now - ev_EndTime ev"
    if "waitPeriod \<noteq> maxDuration \<or> now - ev_EndTime ev \<le> 2 ^ 63 - 1"
    using eq elapsed_exceeds_iff [OF that] by simp
  have c3: "fst (shouldWait lastScaleEvent now config waitPeriod) = True"
    if "now - ev_EndTime ev = sint waitPeriod"
  proof -
    have "now - ev_EndTime ev \<le> 2 ^ 63 - 1"
      using that sint_lt [of waitPeriod] by simp
    then have "sint waitPeriod < sint (Sub now (ev_EndTime ev))
                 \<longleftrightarrow> sint waitPeriod < now - ev_EndTime ev"
      by (intro elapsed_exceeds_iff) simp
    with that eq show ?thesis by simp
  qed
  have c4: "fst (shouldWait lastScaleEvent now config waitPeriod) = True"
    if "waitPeriod = maxDuration"
    using eq that never_exceeds_maxDuration by simp
  show ?thesis using eq c2 c3 c4 by simp
qed

theorem shouldWait_closed_witness:
  "lastClosed rush = (closedEvent, None) \<and> \<not> IsZero (ev_EndTime closedEvent)
   \<and> (60000000000 :: Duration) \<noteq> maxDuration
   \<and> now2015 - ev_EndTime closedEvent = sint (60000000000 :: Duration)
   \<and> fst (shouldWait lastClosed now2015 rush 60000000000) = True
   \<and> fst (shouldWait lastClosed now2015 rush 59999999999) = False
   \<and> fst (shouldWait lastClosed now2015 rush maxDuration) = True"
  using shouldWait_closed [of lastClosed rush closedEvent now2015 60000000000]
        shouldWait_closed [of lastClosed rush closedEvent now2015 59999999999]
        shouldWait_closed [of lastClosed rush closedEvent now2015 maxDuration]
  by (simp add: lastClosed_def closedEvent_def IsZero_def now2015_def maxDuration_def)


text \<open>
  C6, as stated: with no prior event, \<open>shouldWait\<close> returns false. It does not for the
  wait period \<open>maxDuration\<close>: the lookup reports not-found, the zero \<open>EndTime\<close> of the
  zero Event is subtracted from the clock, the difference saturates at \<open>maxDuration\<close>
  and is not greater than the wait period.
\<close>

theorem shouldWait_no_prior_event_counterexample:
  "lastNotFound rush = (zeroEvent, Some ErrNotFound)
   \<and> shouldWait lastNotFound now2015 rush maxDuration = (True, None)
   \<and> shouldWait lastNotFound now2015 rush maxDuration \<noteq> (False, None)"
  by (simp add: shouldWait_def lastNotFound_def zeroEvent_def now2015_def Sub_def Let_def
      maxDuration_def)

text \<open>
  C6, amended. When the lookup reports not-found and hands back the zero Event,
  \<open>shouldWait\<close> returns no error and waits exactly when \<open>now.Sub\<close> of the zero instant
  does not exceed the wait period. For a clock that is \<open>2 ^ 63 - 1\<close> nanoseconds or
  more past the zero instant (any date from the year 293 on) and every wait period
  other than \<open>maxDuration\<close>, it returns false: the alarm is eligible at once.
\<close>

theorem shouldWait_no_prior_event:
  assumes "lastScaleEvent config = (ev, Some ErrNotFound)" and "IsZero (ev_EndTime ev)"
  shows "shouldWait lastScaleEvent now config waitPeriod
           = (\<not> sint waitPeriod < sint (Sub now 0), None)
       \<and> (2 ^ 63 - 1 \<le> now \<and> waitPeriod \<noteq> maxDuration
            \<longrightarrow> shouldWait lastScaleEvent now config waitPeriod = (False, None))"
proof -
  have eq: "shouldWait lastScaleEvent now config waitPeriod
              = (\<not> sint waitPeriod < sint (Sub now 0), None)"
    using assms by (simp add: shouldWait_def Let_def IsZero_def)
  have "sint waitPeriod < sint (Sub now 0)"
    if "2 ^ 63 - 1 \<le> now" and "waitPeriod \<noteq> maxDuration"
  proof -
    have "Sub now 0 = maxDuration" using that(1) by (intro Sub_saturates) simp
    then show ?thesis
      using sint_below_maxDuration [OF that(2)] by (simp add: sint_maxDuration)
  qed
  with eq show ?thesis by simp
qed

theorem shouldWait_no_prior_event_witness:
  "lastNotFound rush = (zeroEvent, Some ErrNotFound) \<and> IsZero (ev_EndTime zeroEvent)
   \<and> 2 ^ 63 - 1 \<le> now2015 \<and> (30000000000 :: Duration) \<noteq> maxDuration
   \<and> shouldWait lastNotFound now2015 rush 30000000000 = (False, None)"
  using shouldWait_no_prior_event [of lastNotFound rush zeroEvent now2015 30000000000]
  by (simp add: lastNotFound_def zeroEvent_def IsZero_def now2015_def maxDuration_def
      Sub_def Let_def)

text \<open>
  C4. One tick for an enabled configuration: \<open>scaleIfNeeded\<close> returns nil and leaves
  the event collection as it found it, here empty; no Event is created and none is
  closed. \<open>runAutoScaleOnce\<close> does the same, over no configuration at all.
\<close>

theorem scaleIfNeeded_creates_no_event:
  "scaleIfNeeded (Some rush) [] = (None, []) \<and> runAutoScaleOnce [] = ([], [])"
  by (simp add: scaleIfNeeded_def runAutoScaleOnce_def)

section \<open>Properties of the wizard\<close>

subsection \<open>The alarm built by newScaleAction\<close>

lemma scaleAlarm_scale_up:
  "scaleAlarm Get c ''scale_up'' =
     \<lparr>al_Name = scaleUpName c,
      al_Expression = Replace (NewReplacer (aggregatorOf (as_ScaleUp c)) (as_ScaleUp c) (as_MinUnits c))
                        (expressionTemplate Get (sa_Metric (as_ScaleUp c))),
      al_Enabled = True,
      al_Wait = sa_Wait (as_ScaleUp c) * Second,
      al_Actions = [''scale_up''],
      al_Instance = as_Name c,
      al_DataSources = [sa_Metric (as_ScaleUp c)],
      al_Envs = [''step'' \<mapsto> sa_Step (as_ScaleUp c), ''process'' \<mapsto> processNameOf c,
                 ''aggregator'' \<mapsto> aggregatorOf (as_ScaleUp c)]\<rparr>"
  by (simp add: scaleAlarm_def Let_def)

lemma scaleAlarm_scale_down:
  "scaleAlarm Get c ''scale_down'' =
     \<lparr>al_Name = scaleDownName c,
      al_Expression = Replace (NewReplacer (aggregatorOf (as_ScaleDown c)) (as_ScaleDown c) (as_MinUnits c))
                        (expressionTemplate Get ''units'' @ '' && ''
                         @ expressionTemplate Get (sa_Metric (as_ScaleDown c))),
      al_Enabled = True,
      al_Wait = sa_Wait (as_ScaleDown c) * Second,
      al_Actions = [''scale_down''],
      al_Instance = as_Name c,
      al_DataSources = [''units'', sa_Metric (as_ScaleDown c)],
      al_Envs = [''step'' \<mapsto> sa_Step (as_ScaleDown c), ''process'' \<mapsto> processNameOf c,
                 ''aggregator'' \<mapsto> aggregatorOf (as_ScaleDown c)]\<rparr>"
  by (simp add: scaleAlarm_def Let_def)

lemma al_Name_scale_up: "al_Name (scaleAlarm Get c ''scale_up'') = scaleUpName c"
  by (simp add: scaleAlarm_def Let_def)

lemma al_Name_scale_down: "al_Name (scaleAlarm Get c ''scale_down'') = scaleDownName c"
  by (simp add: scaleAlarm_def Let_def)


lemma removedAlarms_append: "removedAlarms (xs @ ys) = removedAlarms xs @ removedAlarms ys"
  by (induction xs rule: removedAlarms.induct) simp_all


lemma as_Name_clampMinUnits: "as_Name (clampMinUnits a) = as_Name a"
  and as_Process_clampMinUnits: "as_Process (clampMinUnits a) = as_Process a"
  by (simp_all add: clampMinUnits_def)


















subsection \<open>Envs and Wait\<close>

text \<open>
  C5, as stated: the alarm's \<open>Wait\<close> is the configured wait value unchanged. It is
  not: for the configured value \<open>30\<close> the scale-up alarm of \<open>api\<close> waits
  \<open>30000000000\<close>.
\<close>

theorem wizard_wait_counterexample:
  "al_Wait (scaleAlarm noDatasource api ''scale_up'') \<noteq> sa_Wait (as_ScaleUp api)
   \<and> sa_Wait (as_ScaleUp api) = 30
   \<and> al_Wait (scaleAlarm noDatasource api ''scale_up'') = 30000000000"
  by (simp add: scaleAlarm_scale_up api_def Second_def)

text \<open>
  C5, amended. For both generated alarms \<open>Envs\<close> is exactly the map with the keys
  \<open>step\<close>, \<open>process\<close> and \<open>aggregator\<close>, bound to the action's step, to the process
  name (\<open>web\<close> when the specification names no process) and to the aggregator (\<open>max\<close>
  when the action names none); \<open>Wait\<close> is the configured wait value multiplied by
  \<open>time.Second\<close>, in the wrapping arithmetic of \<open>int64\<close>.
\<close>

theorem wizard_envs_and_wait:
  "al_Envs (scaleAlarm Get c ''scale_up'')
     = [''step'' \<mapsto> sa_Step (as_ScaleUp c), ''process'' \<mapsto> processNameOf c,
        ''aggregator'' \<mapsto> aggregatorOf (as_ScaleUp c)]
   \<and> al_Envs (scaleAlarm Get c ''scale_down'')
     = [''step'' \<mapsto> sa_Step (as_ScaleDown c), ''process'' \<mapsto> processNameOf c,
        ''aggregator'' \<mapsto> aggregatorOf (as_ScaleDown c)]
   \<and> dom (al_Envs (scaleAlarm Get c ''scale_up'')) = {''step'', ''process'', ''aggregator''}
   \<and> dom (al_Envs (scaleAlarm Get c ''scale_down'')) = {''step'', ''process'', ''aggregator''}
   \<and> al_Wait (scaleAlarm Get c ''scale_up'') = sa_Wait (as_ScaleUp c) * Second
   \<and> al_Wait (scaleAlarm Get c ''scale_down'') = sa_Wait (as_ScaleDown c) * Second"
  by (simp add: scaleAlarm_scale_up scaleAlarm_scale_down) auto

theorem wizard_envs_and_wait_witness:
  "al_Envs (scaleAlarm noDatasource api ''scale_down'')
     = [''step'' \<mapsto> ''1'', ''process'' \<mapsto> ''web'', ''aggregator'' \<mapsto> ''max'']
   \<and> al_Wait (scaleAlarm noDatasource api ''scale_down'') = 60000000000"
  using wizard_envs_and_wait [of noDatasource api]
  by (simp add: api_def Second_def)

subsection \<open>The round trip of the scale-up alarm\<close>

text \<open>
  C7. For a specification named \<open>api\<close> with no process whose scale-up action has
  metric \<open>cpu\<close>, operator \<open>>\<close>, value \<open>80\<close> and aggregator \<open>avg\<close>, and with the
  built-in template in force for \<open>cpu\<close> (no template of its own is registered), the
  scale-up alarm is named \<open>scale_up_api\<close> and its expression is the template with the
  values in the places of the placeholders; no brace, hence no placeholder, is left.
\<close>

theorem round_trip_scale_up:
  assumes "as_Name c = ''api''" and "as_Process c = []"
    and "sa_Metric (as_ScaleUp c) = ''cpu''" and "sa_Operator (as_ScaleUp c) = ''>''"
    and "sa_Value (as_ScaleUp c) = ''80''" and "sa_Aggregator (as_ScaleUp c) = ''avg''"
    and "expressionTemplate Get ''cpu'' = defaultExpression"
  shows "al_Name (scaleAlarm Get c ''scale_up'') = ''scale_up_api''
       \<and> al_Expression (scaleAlarm Get c ''scale_up'')
           = ''cpu.aggregations.range.buckets[0].date.buckets[cpu.aggregations.range.buckets[0].date.buckets.length - 1].avg.value > 80''
       \<and> CHR ''{'' \<notin> set (al_Expression (scaleAlarm Get c ''scale_up''))
       \<and> CHR ''}'' \<notin> set (al_Expression (scaleAlarm Get c ''scale_up''))"
proof -
  have "al_Expression (scaleAlarm Get c ''scale_up'')
           = ''cpu.aggregations.range.buckets[0].date.buckets[cpu.aggregations.range.buckets[0].date.buckets.length - 1].avg.value > 80''"
    using assms by (simp add: scaleAlarm_scale_up NewReplacer_def defaultExpression_def)
  moreover have "al_Name (scaleAlarm Get c ''scale_up'') = ''scale_up_api''"
    using assms by (simp add: scaleAlarm_scale_up)
  ultimately show ?thesis by simp
qed

theorem round_trip_scale_up_witness:
  "as_Name api = ''api'' \<and> as_Process api = [] \<and> sa_Metric (as_ScaleUp api) = ''cpu''
   \<and> sa_Operator (as_ScaleUp api) = ''>'' \<and> sa_Value (as_ScaleUp api) = ''80''
   \<and> sa_Aggregator (as_ScaleUp api) = ''avg''
   \<and> expressionTemplate noDatasource ''cpu'' = defaultExpression
   \<and> al_Name (scaleAlarm noDatasource api ''scale_up'') = ''scale_up_api''
   \<and> al_Expression (scaleAlarm noDatasource api ''scale_up'')
       = ''cpu.aggregations.range.buckets[0].date.buckets[cpu.aggregations.range.buckets[0].date.buckets.length - 1].avg.value > 80''"
  using round_trip_scale_up [of api noDatasource]
  by (simp add: api_def expressionTemplate_def noDatasource_def)

subsection \<open>Datasources and the order of the joined templates\<close>




subsection \<open>New: a failing second creation\<close>

text \<open>
  C3, as stated: when the creation of the scale-down alarm fails after the scale-up
  alarm was created, the scale-up alarm is removed. In a world that accepts the
  scale-up alarm of \<open>api\<close> and rejects its scale-down alarm, \<open>New\<close> returns the error
  having called \<open>alarm.NewAlarm\<close> on both alarms and \<open>alarm.RemoveAlarm\<close> on none.
\<close>

theorem New_no_rollback_counterexample:
  "w_NewAlarm downFailsWorld [] (scaleAlarm noDatasource (clampMinUnits api) ''scale_up'') = None
   \<and> fst (New downFailsWorld api []) = Some (ExtErr ''scale_down rejected'')
   \<and> createdAlarms (snd (snd (New downFailsWorld api [])))
       = [scaleAlarm noDatasource (clampMinUnits api) ''scale_up'',
          scaleAlarm noDatasource (clampMinUnits api) ''scale_down'']
   \<and> removedAlarms (snd (snd (New downFailsWorld api []))) = []"
  by (simp add: New_def newScaleAction_def Let_def downFailsWorld_def okWorld_def
      rejectScaleDown_def al_Name_scale_up al_Name_scale_down as_Name_clampMinUnits
      as_Process_clampMinUnits api_def)


text \<open>
  C3, amended. When the creation of the scale-down alarm fails after the scale-up
  alarm was created, \<open>New\<close> returns the error of the second creation; the calls it has
  made are the two creations and nothing else: no alarm is removed and the
  specification is not stored. The scale-up alarm stays.
\<close>

theorem New_second_creation_fails:
  assumes "w_NewAlarm w tr (scaleAlarm (w_datasourceGet w) (clampMinUnits a) ''scale_up'') = None"
    and "w_NewAlarm w
           (tr @ [CallNewAlarm (scaleAlarm (w_datasourceGet w) (clampMinUnits a) ''scale_up'')])
           (scaleAlarm (w_datasourceGet w) (clampMinUnits a) ''scale_down'') = Some err"
  shows "New w a tr
           = (Some err, clampMinUnits a,
              tr @ [CallNewAlarm (scaleAlarm (w_datasourceGet w) (clampMinUnits a) ''scale_up''),
                    CallNewAlarm (scaleAlarm (w_datasourceGet w) (clampMinUnits a) ''scale_down'')])
       \<and> removedAlarms (drop (length tr) (snd (snd (New w a tr)))) = []
       \<and> persisted (drop (length tr) (snd (snd (New w a tr)))) = []"
  using assms by (simp add: New_def newScaleAction_def Let_def)

theorem New_second_creation_fails_witness:
  "w_NewAlarm downFailsWorld [] (scaleAlarm (w_datasourceGet downFailsWorld) (clampMinUnits api) ''scale_up'') = None
   \<and> w_NewAlarm downFailsWorld
        [CallNewAlarm (scaleAlarm (w_datasourceGet downFailsWorld) (clampMinUnits api) ''scale_up'')]
        (scaleAlarm (w_datasourceGet downFailsWorld) (clampMinUnits api) ''scale_down'')
       = Some (ExtErr ''scale_down rejected'')
   \<and> New downFailsWorld api []
       = (Some (ExtErr ''scale_down rejected''), clampMinUnits api,
          [CallNewAlarm (scaleAlarm (w_datasourceGet downFailsWorld) (clampMinUnits api) ''scale_up''),
           CallNewAlarm (scaleAlarm (w_datasourceGet downFailsWorld) (clampMinUnits api) ''scale_down'')])"
  using New_second_creation_fails [of downFailsWorld "[]" api "ExtErr ''scale_down rejected''"]
  by (simp add: downFailsWorld_def okWorld_def
      rejectScaleDown_def al_Name_scale_up al_Name_scale_down as_Name_clampMinUnits
      as_Process_clampMinUnits api_def)


subsection \<open>Enabled\<close>

text \<open>
  C9. \<open>Enabled\<close> reads no field of the specification but its name and process: the two
  alarm names are those under which \<open>newScaleAction\<close> creates the alarms, and the
  result is true exactly when the lookup of the scale-up alarm and then the lookup of
  the scale-down alarm both succeed and both alarms have \<open>Enabled\<close> set.
\<close>

theorem Enabled_iff_both_alarms_enabled:
  "alarms a = [scaleUpName a, scaleDownName a]
   \<and> alarms a = [al_Name (scaleAlarm Get a ''scale_up''), al_Name (scaleAlarm Get a ''scale_down'')]
   \<and> (fst (Enabled w a tr) \<longleftrightarrow>
        (\<exists>up down.
           w_FindAlarmByName w tr (scaleUpName a) = Inr up \<and> al_Enabled up
         \<and> w_FindAlarmByName w (tr @ [CallFindAlarmByName (scaleUpName a)]) (scaleDownName a)
             = Inr down
         \<and> al_Enabled down))"
  by (auto simp: Enabled_def alarms_def al_Name_scale_up al_Name_scale_down split: sum.splits)

theorem Enabled_witness:
  "fst (Enabled okWorld api []) = True
   \<and> fst (Enabled (okWorld\<lparr>w_FindAlarmByName := (\<lambda>tr n. Inl ErrNotFound)\<rparr>) api []) = False"
  using Enabled_iff_both_alarms_enabled [of api noDatasource okWorld "[]"]
    Enabled_iff_both_alarms_enabled [of api noDatasource "okWorld\<lparr>w_FindAlarmByName := (\<lambda>tr n. Inl ErrNotFound)\<rparr>" "[]"]
  by (simp add: okWorld_def findApiAlarm_def api_def scaleAlarm_def Let_def)


subsection \<open>MinUnits is clamped before the alarms are generated\<close>



end
